theory Spec2Isabelle
  imports Complex_Main
begin

section \<open>The mesh visual of vispy (vispy/scene/visuals/mesh.py)\<close>

text \<open>
  The visual keeps a mesh container, four GPU buffers, a shader program and a few flags.
  Its methods are modelled as functions on a record of these attributes. A method that
  can raise returns \<open>Inl (e, s')\<close>, the exception together with the object as the
  exception leaves it, or \<open>Inr s'\<close> when it returns normally.

  Floating point numbers are idealised as reals; numpy arrays of shape (N, k) are lists
  of rows.
\<close>

subsection \<open>Arrays, errors and the mesh container\<close>

type_synonym vec = "real list"
type_synonym ndarray = "vec list"
type_synonym face = "nat \<times> nat \<times> nat"
type_synonym vec3 = "real \<times> real \<times> real"
type_synonym vec4 = "real \<times> real \<times> real \<times> real"

datatype error = AssertionError | InvalidMeshError | Exception string

text \<open>
  The class MeshData (vispy/util/meshdata.py) is not part of the sources at hand. The
  visual only calls its query methods, so a container is taken as the record of what
  these methods answer; a query that raises answers \<open>Inl\<close>. The argument of the
  array queries is the keyword \<open>indexed\<close>: \<open>None\<close> for the shared form,
  \<open>Some ''faces''\<close> for the form indexed by face, where the rows of the three corners
  of face \<open>i\<close> are at positions \<open>3 * i\<close>, \<open>3 * i + 1\<close> and \<open>3 * i + 2\<close>.
\<close>

record meshdata =
  has_face_indexed_data :: bool
  has_vertex_color :: bool
  has_face_color :: bool
  vertices :: "string option \<Rightarrow> error + ndarray"
  faces :: "error + face list"
  vertex_normals :: "string option \<Rightarrow> error + ndarray"
  face_normals :: "string option \<Rightarrow> error + ndarray"
  vertex_colors :: "string option \<Rightarrow> error + ndarray"
  face_colors :: "string option \<Rightarrow> error + ndarray"

text \<open>The constructor call \<open>MeshData(vertices=, faces=, vertex_colors=, face_colors=)\<close>.\<close>

type_synonym meshdata_ctor =
  "ndarray option \<Rightarrow> face list option \<Rightarrow> ndarray option \<Rightarrow> ndarray option
     \<Rightarrow> error + meshdata"

subsection \<open>Buffers and the shader program\<close>

text \<open>
  The calls into \<open>gloo\<close> and into the program are taken to succeed; what can raise is
  the mesh container, its constructor and the assertion of the shading setter.
  Vertex buffers are objects: \<open>set_data\<close> changes one in place, and the program keeps
  references to them. The normal and the colour buffer are created once in \<open>__init__\<close>;
  the position buffer is replaced by a new object in the expanded path, so position
  buffers are numbered in the order of their creation.
\<close>

datatype buffer_id = VerticesObj nat | NormalsObj | ColorsObj

text \<open>
  \<open>self._normals\<close> and \<open>self._colors\<close> are assigned once, in \<open>__init__\<close>, and always
  denote \<open>NormalsObj\<close> and \<open>ColorsObj\<close>. \<open>self._vertices\<close> is reassigned: the attribute
  holds the creation number \<open>n\<close> of the position buffer \<open>VerticesObj n\<close> it refers to.
  \<open>self._faces\<close> is an index buffer that only the visual refers to; it is kept by value.
\<close>

datatype varying = v_color | v_normal

datatype color_source = Uniform vec4 | Attribute buffer_id

record phong_fn =
  phong_normal :: varying
  phong_light_dir :: vec3
  phong_light_color :: vec4
  phong_ambient :: vec4

datatype frag_value = Var varying | PhongCall phong_fn varying

text \<open>
  The slots of \<open>ModularProgram(vertex_template, fragment_template)\<close> that the visual
  assigns: \<open>vert['position']\<close> (always \<open>vec3to4\<close> of a buffer), \<open>vert['transform']\<close>,
  \<open>vert[self._color_var]\<close>, \<open>vert[self._normal_var]\<close> and \<open>frag['color']\<close>.
\<close>

record 't program =
  vert_position :: "buffer_id option"
  vert_transform :: "'t option"
  vert_v_color :: "color_source option"
  vert_v_normal :: "buffer_id option"
  frag_color :: "frag_value option"

text \<open>
  Calls that leave the visual: \<open>self.update()\<close>, \<open>gloo.set_state\<close> and the two forms of
  \<open>program.draw\<close>. \<open>UpdateData\<close> marks an entry into \<open>_update_data\<close>; nothing reads the
  trace, it only records what happened.
\<close>

datatype event = Update | SetState | UpdateData | DrawIndexed "face list" | DrawArrays

record 't mesh =
  self_program :: "'t program"
  gpu :: "buffer_id \<Rightarrow> ndarray"
  self_vertices :: nat
  self_faces :: "face list"
  self_indexed :: "bool option"
  self_color :: vec4
  self_shading :: "string option"
  self_meshdata :: meshdata
  self_data_changed :: bool
  trace :: "event list"

type_synonym 't result = "(error \<times> 't mesh) + 't mesh"

definition buffer_set_data :: "buffer_id \<Rightarrow> ndarray \<Rightarrow> 't mesh \<Rightarrow> 't mesh" where
  "buffer_set_data b a s = s\<lparr>gpu := (gpu s)(b := a)\<rparr>"

definition emit :: "event \<Rightarrow> 't mesh \<Rightarrow> 't mesh" where
  "emit e s = s\<lparr>trace := trace s @ [e]\<rparr>"

definition call :: "error + 'a \<Rightarrow> 't mesh \<Rightarrow> ('a \<Rightarrow> 't result) \<Rightarrow> 't result" where
  "call r s k = (case r of Inl e \<Rightarrow> Inl (e, s) | Inr a \<Rightarrow> k a)"

definition then_do :: "'t result \<Rightarrow> ('t mesh \<Rightarrow> 't result) \<Rightarrow> 't result" where
  "then_do r k = (case r of Inl x \<Rightarrow> Inl x | Inr s \<Rightarrow> k s)"

subsection \<open>The shading property\<close>

definition shading :: "'t mesh \<Rightarrow> string option" where
  "shading s = self_shading s"

definition allowed_shading :: "string option \<Rightarrow> bool" where
  "allowed_shading v = (v = None \<or> v = Some ''flat'' \<or> v = Some ''smooth'')"

definition shading_setter :: "string option \<Rightarrow> 't mesh \<Rightarrow> 't result" where
  "shading_setter v s =
     (if \<not> allowed_shading v then Inl (AssertionError, s)
      else Inr (s\<lparr>self_shading := v\<rparr>))"

subsection \<open>set_data and mesh_data_changed\<close>

definition mesh_data_changed :: "'t mesh \<Rightarrow> 't mesh" where
  "mesh_data_changed s = emit Update (s\<lparr>self_data_changed := True\<rparr>)"

definition set_data ::
  "meshdata_ctor \<Rightarrow> ndarray option \<Rightarrow> face list option \<Rightarrow> ndarray option \<Rightarrow> ndarray option
     \<Rightarrow> meshdata option \<Rightarrow> vec4 option \<Rightarrow> 't mesh \<Rightarrow> 't result" where
  "set_data MeshData vs fs vcs fcs md color s =
     (case (case md of Some m \<Rightarrow> Inr m | None \<Rightarrow> MeshData vs fs vcs fcs) of
        Inl e \<Rightarrow> Inl (e, s)
      | Inr m \<Rightarrow>
          (let s1 = s\<lparr>self_meshdata := m\<rparr>;
               s2 = (case color of Some c \<Rightarrow> s1\<lparr>self_color := c\<rparr> | None \<Rightarrow> s1)
           in Inr (mesh_data_changed s2)))"

subsection \<open>Materialization: _update_data\<close>

text \<open>The colour block of the indexed path: two independent \<open>if\<close> statements.\<close>

definition update_colors_indexed :: "meshdata \<Rightarrow> 't mesh \<Rightarrow> 't result" where
  "update_colors_indexed md s =
     then_do
       (if has_vertex_color md
        then call (vertex_colors md None) s (\<lambda>c. Inr (buffer_set_data ColorsObj c s))
        else Inr s)
       (\<lambda>s. if has_face_color md
            then call (face_colors md None) s (\<lambda>c. Inr (buffer_set_data ColorsObj c s))
            else Inr s)"

text \<open>The colour block of the expanded path: \<open>if\<close> ... \<open>elif\<close>.\<close>

definition update_colors_expanded :: "meshdata \<Rightarrow> 't mesh \<Rightarrow> 't result" where
  "update_colors_expanded md s =
     (if has_vertex_color md
      then call (vertex_colors md (Some ''faces'')) s (\<lambda>c. Inr (buffer_set_data ColorsObj c s))
      else if has_face_color md
      then call (face_colors md (Some ''faces'')) s (\<lambda>c. Inr (buffer_set_data ColorsObj c s))
      else Inr s)"

definition update_normals_expanded :: "meshdata \<Rightarrow> 't mesh \<Rightarrow> 't result" where
  "update_normals_expanded md s =
     (if shading s = Some ''smooth''
      then call (vertex_normals md (Some ''faces'')) s (\<lambda>n. Inr (buffer_set_data NormalsObj n s))
      else if shading s = Some ''flat''
      then call (face_normals md (Some ''faces'')) s (\<lambda>n. Inr (buffer_set_data NormalsObj n s))
      else Inr s)"

text \<open>\<open>self._vertices = gloo.VertexBuffer(v)\<close>: a new buffer object holding \<open>v\<close>.\<close>

definition new_vertex_buffer :: "ndarray \<Rightarrow> 't mesh \<Rightarrow> 't mesh" where
  "new_vertex_buffer v s =
     (let n = Suc (self_vertices s)
      in s\<lparr>gpu := (gpu s)(VerticesObj n := v), self_vertices := n\<rparr>)"

definition update_buffers :: "'t mesh \<Rightarrow> 't result" where
  "update_buffers s =
     (let md = self_meshdata s in
      if shading s = Some ''smooth'' \<and> \<not> has_face_indexed_data md then
        call (vertices md None) s (\<lambda>v.
          let s1 = buffer_set_data (VerticesObj (self_vertices s)) v s in
          call (vertex_normals md None) s1 (\<lambda>n.
            let s2 = buffer_set_data NormalsObj n s1 in
            call (faces md) s2 (\<lambda>f.
              update_colors_indexed md (s2\<lparr>self_faces := f, self_indexed := Some True\<rparr>))))
      else
        call (vertices md (Some ''faces'')) s (\<lambda>v.
          then_do (update_normals_expanded md (new_vertex_buffer v s))
            (\<lambda>s3. update_colors_expanded md (s3\<lparr>self_indexed := Some False\<rparr>))))"

definition default_phong :: phong_fn where
  "default_phong =
     \<lparr>phong_normal = v_normal,
      phong_light_dir = (1, 1, 1),
      phong_light_color = (1, 1, 1, 1),
      phong_ambient = (3 / 10, 3 / 10, 3 / 10, 1)\<rparr>"

text \<open>The second half of \<open>_update_data\<close>: position, colour input and shading.\<close>

definition bind_program :: "'t mesh \<Rightarrow> 't mesh" where
  "bind_program s =
     (let md = self_meshdata s;
          P1 = (self_program s)\<lparr>vert_position := Some (VerticesObj (self_vertices s))\<rparr>;
          color = (if \<not> has_vertex_color md \<and> \<not> has_face_color md
                   then Uniform (self_color s) else Attribute ColorsObj);
          P2 = P1\<lparr>vert_v_color := Some color\<rparr>;
          P3 = (if shading s = None then P2\<lparr>frag_color := Some (Var v_color)\<rparr>
                else P2\<lparr>vert_v_normal := Some NormalsObj,
                        frag_color := Some (PhongCall default_phong v_color)\<rparr>)
      in s\<lparr>self_program := P3\<rparr>)"

definition update_data :: "'t mesh \<Rightarrow> 't result" where
  "update_data s = then_do (update_buffers (emit UpdateData s)) (\<lambda>s'. Inr (bind_program s'))"

subsection \<open>draw\<close>

text \<open>The end of \<open>draw\<close>: the transform is bound and the triangles are submitted.\<close>

definition submit :: "'t \<Rightarrow> 't mesh \<Rightarrow> 't mesh" where
  "submit T s1 =
     (let s2 = s1\<lparr>self_program := (self_program s1)\<lparr>vert_transform := Some T\<rparr>\<rparr>
      in if self_indexed s2 = Some True then emit (DrawIndexed (self_faces s2)) s2
         else emit DrawArrays s2)"

definition draw :: "'t \<Rightarrow> 't mesh \<Rightarrow> 't result" where
  "draw T s =
     (let s0 = emit SetState s in
      then_do (if self_data_changed s0 then update_data s0 else Inr s0)
        (\<lambda>s1. Inr (submit T s1)))"

subsection \<open>Construction\<close>

text \<open>
  \<open>__init__\<close> creates the program and the buffers, stores the uniform colour, assigns the
  shading property (which asserts) and calls \<open>set_data\<close> without a colour. The attributes
  \<open>_shading\<close>, \<open>_meshdata\<close> and \<open>_data_changed\<close> do not exist before these two calls, so
  the object is given as it is when \<open>__init__\<close> returns; an exception leaves no object.
\<close>

definition default_color :: vec4 where
  "default_color = (1 / 2, 1 / 2, 1, 1)"

definition new_visual :: "meshdata \<Rightarrow> vec4 \<Rightarrow> string option \<Rightarrow> 't mesh" where
  "new_visual m color shading_arg =
     \<lparr>self_program = \<lparr>vert_position = None, vert_transform = None, vert_v_color = None,
                       vert_v_normal = None, frag_color = None\<rparr>,
      gpu = (\<lambda>b. case b of VerticesObj n \<Rightarrow> (if n = 0 then replicate 300 [0, 0, 0] else [])
                   | NormalsObj \<Rightarrow> [] | ColorsObj \<Rightarrow> []),
      self_vertices = 0,
      self_faces = [],
      self_indexed = None,
      self_color = color,
      self_shading = shading_arg,
      self_meshdata = m,
      self_data_changed = True,
      trace = [Update]\<rparr>"

definition Mesh_init ::
  "meshdata_ctor \<Rightarrow> ndarray option \<Rightarrow> face list option \<Rightarrow> ndarray option \<Rightarrow> ndarray option
     \<Rightarrow> vec4 \<Rightarrow> meshdata option \<Rightarrow> string option \<Rightarrow> error + 't mesh" where
  "Mesh_init MeshData vs fs vcs fcs color md shading_arg =
     (if \<not> allowed_shading shading_arg then Inl AssertionError
      else case (case md of Some m \<Rightarrow> Inr m | None \<Rightarrow> MeshData vs fs vcs fcs) of
        Inl e \<Rightarrow> Inl e
      | Inr m \<Rightarrow> Inr (new_visual m color shading_arg))"

subsection \<open>The lighting function\<close>

text \<open>
  The GLSL built-in functions that \<open>phong_template\<close> uses, on real numbers:
  \<open>normalize\<close>, \<open>dot\<close>, \<open>reflect\<close> (\<open>I - 2 * dot(N, I) * N\<close>) and \<open>pow\<close>, and the arithmetic
  of \<open>vec4\<close>: a vector times a scalar, sum and product by components.
\<close>

definition glsl_dot :: "vec3 \<Rightarrow> vec3 \<Rightarrow> real" where
  "glsl_dot a b = (case a of (ax, ay, az) \<Rightarrow> case b of (bx, by, bz) \<Rightarrow> ax * bx + ay * by + az * bz)"

definition glsl_normalize :: "vec3 \<Rightarrow> vec3" where
  "glsl_normalize a =
     (case a of (x, y, z) \<Rightarrow> let l = sqrt (glsl_dot a a) in (x / l, y / l, z / l))"

definition glsl_reflect :: "vec3 \<Rightarrow> vec3 \<Rightarrow> vec3" where
  "glsl_reflect i n =
     (case i of (ix, iy, iz) \<Rightarrow> case n of (nx, ny, nz) \<Rightarrow>
        let d = 2 * glsl_dot n i in (ix - d * nx, iy - d * ny, iz - d * nz))"

definition glsl_pow :: "real \<Rightarrow> real \<Rightarrow> real" where
  "glsl_pow x y = x powr y"

definition scale4 :: "vec4 \<Rightarrow> real \<Rightarrow> vec4" where
  "scale4 a k = (case a of (r, g, b, w) \<Rightarrow> (r * k, g * k, b * k, w * k))"

definition add4 :: "vec4 \<Rightarrow> vec4 \<Rightarrow> vec4" where
  "add4 a b = (case a of (r, g, b1, w) \<Rightarrow> case b of (r', g', b', w') \<Rightarrow>
                 (r + r', g + g', b1 + b', w + w'))"

definition mul4 :: "vec4 \<Rightarrow> vec4 \<Rightarrow> vec4" where
  "mul4 a b = (case a of (r, g, b1, w) \<Rightarrow> case b of (r', g', b', w') \<Rightarrow>
                 (r * r', g * g', b1 * b', w * w'))"

definition set_alpha :: "vec4 \<Rightarrow> real \<Rightarrow> vec4" where
  "set_alpha a x = (case a of (r, g, b, w) \<Rightarrow> (r, g, b, x))"

text \<open>
  \<open>phong_shading\<close> of \<open>phong_template\<close>, statement by statement; the first four arguments
  are the template variables \<open>$normal\<close>, \<open>$light_dir\<close>, \<open>$light_color\<close> and \<open>$ambient\<close>.
\<close>

definition phong_shading :: "vec3 \<Rightarrow> vec3 \<Rightarrow> vec4 \<Rightarrow> vec4 \<Rightarrow> vec4 \<Rightarrow> vec4" where
  "phong_shading normal light_dir light_color ambient color =
     (let norm = glsl_normalize normal;
          light = glsl_normalize light_dir;
          p = glsl_dot light norm;
          p = (if p < 0 then 0 else p);
          diffuse = scale4 light_color p;
          diffuse = set_alpha diffuse 1;
          p = glsl_dot (glsl_reflect light norm) (0, 0, 1);
          p = (if p < 0 then 0 else p);
          specular = scale4 (scale4 light_color 5) (glsl_pow p 100)
      in add4 (mul4 color (add4 ambient diffuse)) specular)"

text \<open>
  The colour that \<open>fragment_template\<close> writes for a fragment where the varying \<open>v_color\<close>
  has the value \<open>c\<close> and \<open>v_normal\<close> the value \<open>n\<close>. A \<open>vec3\<close> in the place of a \<open>vec4\<close> does
  not compile: \<open>None\<close>.
\<close>

fun eval_frag :: "frag_value \<Rightarrow> vec4 \<Rightarrow> vec3 \<Rightarrow> vec4 option" where
  "eval_frag (Var v_color) c n = Some c"
| "eval_frag (Var v_normal) c n = None"
| "eval_frag (PhongCall f v_color) c n =
     (if phong_normal f = v_normal
      then Some (phong_shading n (phong_light_dir f) (phong_light_color f) (phong_ambient f) c)
      else None)"
| "eval_frag (PhongCall f v_normal) c n = None"

text \<open>
  The lighting computation in the words of the specification: normalised normal and light
  direction; diffuse term, light colour times \<open>max(0, dot(light, normal))\<close> with alpha 1;
  specular term, light colour times 5 times \<open>max(0, dot(reflect(light, normal), view-axis))^100\<close>;
  output \<open>colorValue * (ambient + diffuse) + specular\<close>. The view axis is the z axis.
\<close>

definition view_axis :: vec3 where
  "view_axis = (0, 0, 1)"

definition lighting_spec :: "vec3 \<Rightarrow> vec3 \<Rightarrow> vec4 \<Rightarrow> vec4 \<Rightarrow> vec4 \<Rightarrow> vec4" where
  "lighting_spec normal light_dir light_color ambient colorValue =
     (let N = glsl_normalize normal;
          L = glsl_normalize light_dir;
          diffuse = set_alpha (scale4 light_color (max 0 (glsl_dot L N))) 1;
          specular = scale4 light_color (5 * (max 0 (glsl_dot (glsl_reflect L N) view_axis)) ^ 100)
      in add4 (mul4 colorValue (add4 ambient diffuse)) specular)"

subsection \<open>A mesh container after the specification\<close>

text \<open>
  The class MeshData of vispy/util/meshdata.py is not among the sources. The definitions
  of this subsection give a container from the words of the specification: section 3 (a
  mesh is vertices, faces as triples of vertex numbers, and optional colours per vertex
  and per face, as long as the vertices and as the faces), section 6 (the queries, each
  in shared form or expanded by face) and section 4.1 (the expansion and the failures).
\<close>

text \<open>
  Modelled from the spec: the derivation of normals inside MeshData, which section 6 only
  requires to exist. The normal of a face is a function of its three corner positions,
  the normal of a vertex a function of the geometry and the vertex number.
\<close>

record normal_ops =
  face_normal :: "vec \<Rightarrow> vec \<Rightarrow> vec \<Rightarrow> vec"
  vertex_normal :: "ndarray \<Rightarrow> face list \<Rightarrow> nat \<Rightarrow> vec"

text \<open>
  Modelled from the spec: the validity check of MeshData (section 4.1, no face refers to a
  vertex out of range).
\<close>

definition faces_in_range :: "nat \<Rightarrow> face list \<Rightarrow> bool" where
  "faces_in_range n fs = list_all (\<lambda>(a, b, c). a < n \<and> b < n \<and> c < n) fs"

text \<open>
  Modelled from the spec: the expansion of per-vertex data by MeshData (section 4.1, one
  row per face corner, shared vertices duplicated).
\<close>

definition index_by_face :: "'a list \<Rightarrow> face list \<Rightarrow> 'a list" where
  "index_by_face xs fs = concat (map (\<lambda>(a, b, c). [xs ! a, xs ! b, xs ! c]) fs)"

text \<open>
  Modelled from the spec: the expansion of per-face data by MeshData (section 4.1, each of
  the three corners of a face gets the value of that face).
\<close>

definition repeat_by_face :: "'a list \<Rightarrow> 'a list" where
  "repeat_by_face xs = concat (map (\<lambda>x. [x, x, x]) xs)"

text \<open>
  Modelled from the spec: the keyword \<open>indexed\<close> of the queries of MeshData (section 6,
  shared or expanded by face); any other value is refused.
\<close>

definition select_indexed :: "string option \<Rightarrow> error + 'a \<Rightarrow> error + 'a \<Rightarrow> error + 'a" where
  "select_indexed ix shared by_face =
     (if ix = None then shared else if ix = Some ''faces'' then by_face
      else Inl (Exception ''invalid indexed''))"

text \<open>
  Modelled from the spec: the queries of a MeshData object built from vertices, faces and
  optional colours. A query fails with \<open>InvalidMeshError\<close> when it has to follow a face to
  a vertex out of range or when the colour array asked for has the wrong length
  (section 4.1). A mesh built from shared vertices and faces carries no face-only data.
  A colour query on a mesh without these colours, which the visual never makes, raises.
\<close>

definition mesh_of ::
  "normal_ops \<Rightarrow> ndarray \<Rightarrow> face list \<Rightarrow> ndarray option \<Rightarrow> ndarray option \<Rightarrow> meshdata" where
  "mesh_of N vs fs vertex_colors_arg face_colors_arg =
     (let checked = (\<lambda>a. if faces_in_range (length vs) fs then Inr a else Inl InvalidMeshError);
          vn = map (vertex_normal N vs fs) [0..<length vs];
          fn = map (\<lambda>(a, b, c). face_normal N (vs ! a) (vs ! b) (vs ! c)) fs
      in
        \<lparr>has_face_indexed_data = False,
         has_vertex_color = (vertex_colors_arg \<noteq> None),
         has_face_color = (face_colors_arg \<noteq> None),
         vertices = (\<lambda>ix. select_indexed ix (Inr vs) (checked (index_by_face vs fs))),
         faces = Inr fs,
         vertex_normals = (\<lambda>ix. select_indexed ix (checked vn) (checked (index_by_face vn fs))),
         face_normals = (\<lambda>ix. select_indexed ix (checked fn) (checked (repeat_by_face fn))),
         vertex_colors = (\<lambda>ix. case vertex_colors_arg of
             None \<Rightarrow> Inl (Exception ''no vertex colors'')
           | Some cs \<Rightarrow>
               if length cs \<noteq> length vs then Inl InvalidMeshError
               else select_indexed ix (Inr cs) (checked (index_by_face cs fs))),
         face_colors = (\<lambda>ix. case face_colors_arg of
             None \<Rightarrow> Inl (Exception ''no face colors'')
           | Some cs \<Rightarrow>
               if length cs \<noteq> length fs then Inl InvalidMeshError
               else select_indexed ix (Inr cs) (Inr (repeat_by_face cs)))\<rparr>)"

text \<open>
  Modelled from the spec: the constructor \<open>MeshData(vertices=, faces=, vertex_colors=,
  face_colors=)\<close>. It stores its arguments and does not raise; missing vertices or faces
  give an empty mesh.
\<close>

definition MeshData :: "normal_ops \<Rightarrow> meshdata_ctor" where
  "MeshData N vertices_arg faces_arg vertex_colors_arg face_colors_arg =
     Inr (mesh_of N (case vertices_arg of None \<Rightarrow> [] | Some v \<Rightarrow> v)
                    (case faces_arg of None \<Rightarrow> [] | Some f \<Rightarrow> f)
                    vertex_colors_arg face_colors_arg)"

subsection \<open>Example data\<close>

text \<open>
  A tetrahedron centred at the origin, with four colours per vertex and per face. For a
  mesh around the origin the position of a vertex and the sum of the corners of a face
  point outwards; they serve as (unnormalised) normals in the examples.
\<close>

definition radial_normals :: normal_ops where
  "radial_normals =
     \<lparr>face_normal = (\<lambda>a b c. map2 (+) (map2 (+) a b) c),
      vertex_normal = (\<lambda>vs fs i. vs ! i)\<rparr>"

definition tetra_vertices :: ndarray where
  "tetra_vertices = [[1, 1, 1], [1, -1, -1], [-1, 1, -1], [-1, -1, 1]]"

definition tetra_faces :: "face list" where
  "tetra_faces = [(0, 1, 2), (0, 3, 1), (0, 2, 3), (1, 3, 2)]"

definition tetra_vertex_colors :: ndarray where
  "tetra_vertex_colors = [[1, 0, 0, 1], [0, 1, 0, 1], [0, 0, 1, 1], [1, 1, 1, 1]]"

definition tetra_face_colors :: ndarray where
  "tetra_face_colors = [[1, 1, 0, 1], [0, 1, 1, 1], [1, 0, 1, 1], [0, 0, 0, 1]]"

definition tetra :: "ndarray option \<Rightarrow> ndarray option \<Rightarrow> meshdata" where
  "tetra vcs fcs = mesh_of radial_normals tetra_vertices tetra_faces vcs fcs"

definition triangle_vertices :: ndarray where
  "triangle_vertices = [[0, 0, 0], [1, 0, 0], [0, 1, 0]]"

definition triangle_faces :: "face list" where
  "triangle_faces = [(0, 1, 2)]"

definition tetra_visual :: "ndarray option \<Rightarrow> ndarray option \<Rightarrow> string option \<Rightarrow> unit mesh" where
  "tetra_visual vcs fcs sh = new_visual (tetra vcs fcs) default_color sh"

text \<open>
  Two histories. In the first a visual is drawn with flat shading and the shading is then
  switched off. In the second a visual is drawn with smooth shading, switched to flat
  shading and given a triangle whose colour array has one row for three vertices.
\<close>

definition after_flat_draw :: "unit mesh" where
  "after_flat_draw = projr (draw () (tetra_visual None None (Some ''flat'')))"

definition shading_off :: "unit mesh" where
  "shading_off = projr (shading_setter None after_flat_draw)"

definition short_colors :: ndarray where
  "short_colors = [[1, 0, 0, 1]]"

definition after_smooth_draw :: "unit mesh" where
  "after_smooth_draw = projr (draw () (tetra_visual None None (Some ''smooth'')))"

definition switched_flat :: "unit mesh" where
  "switched_flat = projr (shading_setter (Some ''flat'') after_smooth_draw)"

definition reloaded :: "unit mesh" where
  "reloaded =
     projr (set_data (MeshData radial_normals) (Some triangle_vertices) (Some triangle_faces)
              (Some short_colors) None None None switched_flat)"

text \<open>
  A third history: after the draw with smooth shading the visual is given a triangle with
  a face that refers to the vertex 5.
\<close>

definition bad_faces :: "face list" where
  "bad_faces = [(0, 1, 5)]"

definition reloaded_bad_faces :: "unit mesh" where
  "reloaded_bad_faces =
     projr (set_data (MeshData radial_normals) (Some triangle_vertices) (Some bad_faces)
              None None None None after_smooth_draw)"

text \<open>A visual that is given the tetrahedron again by \<open>set_data\<close> and then drawn twice.\<close>

definition set_once :: "unit mesh" where
  "set_once =
     projr (set_data (MeshData radial_normals) (Some tetra_vertices) (Some tetra_faces)
              None None None None (tetra_visual None None (Some ''smooth'')))"

definition drawn_twice :: "unit result" where
  "drawn_twice = then_do (draw () set_once) (draw ())"

section \<open>Verification\<close>

subsection \<open>What materialization leaves alone\<close>

lemmas materialize_defs =
  update_buffers_def update_colors_indexed_def update_colors_expanded_def
  update_normals_expanded_def new_vertex_buffer_def buffer_set_data_def
  call_def then_do_def shading_def Let_def

lemma update_buffers_frame:
  assumes "update_buffers s = Inr s' \<or> update_buffers s = Inl (e, s')"
  shows "self_meshdata s' = self_meshdata s \<and> self_color s' = self_color s
       \<and> self_shading s' = self_shading s \<and> self_data_changed s' = self_data_changed s
       \<and> self_program s' = self_program s \<and> trace s' = trace s"
  using assms
  by (auto simp: materialize_defs split: if_splits sum.splits)

lemma update_data_Inl:
  "update_data s = Inl (e, s') \<longleftrightarrow> update_buffers (emit UpdateData s) = Inl (e, s')"
  by (auto simp: update_data_def then_do_def split: sum.splits)

lemma update_data_Inr:
  "update_data s = Inr s' \<longleftrightarrow>
     (\<exists>s1. update_buffers (emit UpdateData s) = Inr s1 \<and> s' = bind_program s1)"
  by (auto simp: update_data_def then_do_def split: sum.splits)

lemma bind_program_frame:
  "self_meshdata (bind_program s) = self_meshdata s"
  "self_color (bind_program s) = self_color s"
  "self_shading (bind_program s) = self_shading s"
  "self_data_changed (bind_program s) = self_data_changed s"
  "gpu (bind_program s) = gpu s"
  "self_vertices (bind_program s) = self_vertices s"
  "self_faces (bind_program s) = self_faces s"
  "self_indexed (bind_program s) = self_indexed s"
  "trace (bind_program s) = trace s"
  by (simp_all add: bind_program_def Let_def)

lemma emit_frame:
  "self_meshdata (emit ev s) = self_meshdata s"
  "self_color (emit ev s) = self_color s"
  "self_shading (emit ev s) = self_shading s"
  "shading (emit ev s) = shading s"
  "self_data_changed (emit ev s) = self_data_changed s"
  "gpu (emit ev s) = gpu s"
  "self_vertices (emit ev s) = self_vertices s"
  "self_faces (emit ev s) = self_faces s"
  "self_indexed (emit ev s) = self_indexed s"
  "self_program (emit ev s) = self_program s"
  "trace (emit ev s) = trace s @ [ev]"
  by (simp_all add: emit_def shading_def)

subsection \<open>The two paths of materialization\<close>

lemma indexed_path:
  assumes sm: "shading s = Some ''smooth''"
    and nf: "\<not> has_face_indexed_data (self_meshdata s)"
    and r: "update_buffers s = Inr s'"
  shows "self_indexed s' = Some True"
    and "self_vertices s' = self_vertices s"
    and "vertices (self_meshdata s) None = Inr (gpu s' (VerticesObj (self_vertices s)))"
    and "vertex_normals (self_meshdata s) None = Inr (gpu s' NormalsObj)"
    and "faces (self_meshdata s) = Inr (self_faces s')"
    and "has_face_color (self_meshdata s) \<Longrightarrow>
           face_colors (self_meshdata s) None = Inr (gpu s' ColorsObj)"
    and "has_vertex_color (self_meshdata s) \<Longrightarrow> \<not> has_face_color (self_meshdata s) \<Longrightarrow>
           vertex_colors (self_meshdata s) None = Inr (gpu s' ColorsObj)"
    and "\<not> has_vertex_color (self_meshdata s) \<Longrightarrow> \<not> has_face_color (self_meshdata s) \<Longrightarrow>
           gpu s' ColorsObj = gpu s ColorsObj"
  using sm nf r
  by (auto simp: materialize_defs split: if_splits sum.splits)

lemma expanded_path:
  assumes ex: "\<not> (shading s = Some ''smooth'' \<and> \<not> has_face_indexed_data (self_meshdata s))"
    and r: "update_buffers s = Inr s'"
  shows "self_indexed s' = Some False"
    and "self_vertices s' = Suc (self_vertices s)"
    and "self_faces s' = self_faces s"
    and "vertices (self_meshdata s) (Some ''faces'') = Inr (gpu s' (VerticesObj (self_vertices s')))"
    and "shading s = Some ''smooth'' \<Longrightarrow>
           vertex_normals (self_meshdata s) (Some ''faces'') = Inr (gpu s' NormalsObj)"
    and "shading s = Some ''flat'' \<Longrightarrow>
           face_normals (self_meshdata s) (Some ''faces'') = Inr (gpu s' NormalsObj)"
    and "shading s \<noteq> Some ''smooth'' \<Longrightarrow> shading s \<noteq> Some ''flat'' \<Longrightarrow>
           gpu s' NormalsObj = gpu s NormalsObj"
    and "has_vertex_color (self_meshdata s) \<Longrightarrow>
           vertex_colors (self_meshdata s) (Some ''faces'') = Inr (gpu s' ColorsObj)"
    and "\<not> has_vertex_color (self_meshdata s) \<Longrightarrow> has_face_color (self_meshdata s) \<Longrightarrow>
           face_colors (self_meshdata s) (Some ''faces'') = Inr (gpu s' ColorsObj)"
    and "\<not> has_vertex_color (self_meshdata s) \<Longrightarrow> \<not> has_face_color (self_meshdata s) \<Longrightarrow>
           gpu s' ColorsObj = gpu s ColorsObj"
    and "\<forall>n \<le> self_vertices s. gpu s' (VerticesObj n) = gpu s (VerticesObj n)"
  using ex r
  by (auto simp: materialize_defs split: if_splits sum.splits)

subsection \<open>Evaluating the examples\<close>

lemmas example_defs =
  tetra_visual_def tetra_def new_visual_def mesh_of_def radial_normals_def
  tetra_vertices_def tetra_faces_def tetra_vertex_colors_def tetra_face_colors_def
  default_color_def faces_in_range_def index_by_face_def repeat_by_face_def
  select_indexed_def Let_def

lemmas run_defs =
  update_data_def bind_program_def emit_def default_phong_def materialize_defs

lemma returns_projr: "\<not> isl r \<Longrightarrow> r = Inr (projr r)"
  by (cases r) simp_all

text \<open>The visuals of the examples are what the constructor returns.\<close>

lemma tetra_visual_constructed:
  assumes "allowed_shading sh"
  shows "Mesh_init (MeshData radial_normals) (Some tetra_vertices) (Some tetra_faces) vcs fcs
           default_color None sh = Inr (tetra_visual vcs fcs sh)"
  using assms by (simp add: Mesh_init_def MeshData_def tetra_visual_def tetra_def)

subsection \<open>The colour input\<close>

text \<open>
  C6: the colour varying is bound to the uniform RGBA constant if and only if the mesh has
  neither colours per vertex nor per face; otherwise it is bound to the colour attribute
  buffer, which then holds one of the colour arrays of the mesh that this materialization
  has written. The slot holds one of the two bindings.
\<close>

theorem color_input_binding:
  assumes "update_data s = Inr s'"
  shows "(vert_v_color (self_program s') = Some (Uniform (self_color s))
            \<longleftrightarrow> \<not> has_vertex_color (self_meshdata s) \<and> \<not> has_face_color (self_meshdata s))
       \<and> (vert_v_color (self_program s') = Some (Attribute ColorsObj)
            \<longleftrightarrow> has_vertex_color (self_meshdata s) \<or> has_face_color (self_meshdata s))
       \<and> (has_vertex_color (self_meshdata s) \<or> has_face_color (self_meshdata s) \<longrightarrow>
            Inr (gpu s' ColorsObj) \<in>
              {vertex_colors (self_meshdata s) None, face_colors (self_meshdata s) None,
               vertex_colors (self_meshdata s) (Some ''faces''),
               face_colors (self_meshdata s) (Some ''faces'')})"
proof -
  from assms obtain s1 where s1: "update_buffers (emit UpdateData s) = Inr s1"
    and s': "s' = bind_program s1"
    by (auto simp: update_data_Inr)
  have fr: "self_meshdata s1 = self_meshdata s" "self_color s1 = self_color s"
    using update_buffers_frame[of "emit UpdateData s" s1] s1 by (simp_all add: emit_frame)
  have bind: "vert_v_color (self_program s') =
      Some (if \<not> has_vertex_color (self_meshdata s) \<and> \<not> has_face_color (self_meshdata s)
            then Uniform (self_color s) else Attribute ColorsObj)"
    by (simp add: s' bind_program_def Let_def fr)
  have content: "Inr (gpu s' ColorsObj) \<in>
              {vertex_colors (self_meshdata s) None, face_colors (self_meshdata s) None,
               vertex_colors (self_meshdata s) (Some ''faces''),
               face_colors (self_meshdata s) (Some ''faces'')}"
    if "has_vertex_color (self_meshdata s) \<or> has_face_color (self_meshdata s)"
  proof (cases "shading (emit UpdateData s) = Some ''smooth''
        \<and> \<not> has_face_indexed_data (self_meshdata (emit UpdateData s))")
    case True
    then have sm: "shading (emit UpdateData s) = Some ''smooth''"
      and nf: "\<not> has_face_indexed_data (self_meshdata (emit UpdateData s))"
      by simp_all
    show ?thesis
    proof (cases "has_face_color (self_meshdata s)")
      case True
      then show ?thesis
        using indexed_path(6)[OF sm nf s1] by (simp add: emit_frame s' bind_program_frame)
    next
      case False
      with that have "has_vertex_color (self_meshdata s)" by simp
      with False show ?thesis
        using indexed_path(7)[OF sm nf s1] by (simp add: emit_frame s' bind_program_frame)
    qed
  next
    case False
    show ?thesis
    proof (cases "has_vertex_color (self_meshdata s)")
      case True
      then show ?thesis
        using expanded_path(8)[OF False s1] by (simp add: emit_frame s' bind_program_frame)
    next
      case nv: False
      with that have "has_face_color (self_meshdata s)" by simp
      with nv show ?thesis
        using expanded_path(9)[OF False s1] by (simp add: emit_frame s' bind_program_frame)
    qed
  qed
  show ?thesis using bind content by auto
qed

theorem color_input_binding_witness:
  "update_data (tetra_visual None None (Some ''smooth''))
     = Inr (projr (update_data (tetra_visual None None (Some ''smooth''))))
   \<and> vert_v_color (self_program (projr (update_data (tetra_visual None None (Some ''smooth'')))))
       = Some (Uniform default_color)
   \<and> update_data (tetra_visual (Some tetra_vertex_colors) None (Some ''flat''))
     = Inr (projr (update_data (tetra_visual (Some tetra_vertex_colors) None (Some ''flat''))))
   \<and> vert_v_color (self_program (projr (update_data
         (tetra_visual (Some tetra_vertex_colors) None (Some ''flat'')))))
       = Some (Attribute ColorsObj)"
proof -
  let ?a = "tetra_visual None None (Some ''smooth'')"
  let ?b = "tetra_visual (Some tetra_vertex_colors) None (Some ''flat'')"
  have a: "update_data ?a = Inr (projr (update_data ?a))"
    by (rule returns_projr) (simp add: run_defs example_defs)
  have b: "update_data ?b = Inr (projr (update_data ?b))"
    by (rule returns_projr) (simp add: run_defs example_defs)
  have ma: "\<not> has_vertex_color (self_meshdata ?a)" "\<not> has_face_color (self_meshdata ?a)"
     "self_color ?a = default_color"
    by (simp_all add: example_defs)
  have mb: "has_vertex_color (self_meshdata ?b)"
    by (simp add: example_defs)
  show ?thesis
    using color_input_binding[OF a] color_input_binding[OF b] a b ma mb by simp
qed

subsection \<open>The shading property\<close>

text \<open>
  C9: for a value other than \<open>None\<close>, \<open>'flat'\<close> and \<open>'smooth'\<close> the setter raises
  \<open>AssertionError\<close> at once and leaves the visual, and so the stored shading mode, as it
  was; for each of the three values it returns and the getter then gives that value.
\<close>

theorem shading_setter_validates:
  "(v \<notin> {None, Some ''flat'', Some ''smooth''} \<longrightarrow>
      shading_setter v s = Inl (AssertionError, s))
   \<and> (v \<in> {None, Some ''flat'', Some ''smooth''} \<longrightarrow>
      (\<exists>s'. shading_setter v s = Inr s' \<and> shading s' = v))"
proof (cases "allowed_shading v")
  case True
  then have member: "v \<in> {None, Some ''flat'', Some ''smooth''}"
    by (auto simp: allowed_shading_def)
  have "shading_setter v s = Inr (s\<lparr>self_shading := v\<rparr>)"
    using True by (simp add: shading_setter_def)
  moreover have "shading (s\<lparr>self_shading := v\<rparr>) = v"
    by (simp add: shading_def)
  ultimately show ?thesis using member by blast
next
  case False
  then have outside: "v \<notin> {None, Some ''flat'', Some ''smooth''}"
    by (auto simp: allowed_shading_def)
  have "shading_setter v s = Inl (AssertionError, s)"
    using False by (simp add: shading_setter_def)
  then show ?thesis using outside by blast
qed

theorem shading_setter_validates_witness:
  "Some ''phong'' \<notin> {None, Some ''flat'', Some ''smooth''}
   \<and> shading_setter (Some ''phong'') (tetra_visual None None None)
       = Inl (AssertionError, tetra_visual None None None)
   \<and> Some ''flat'' \<in> {None, Some ''flat'', Some ''smooth''}
   \<and> (\<exists>s'. shading_setter (Some ''flat'') (tetra_visual None None None) = Inr s'
          \<and> shading s' = Some ''flat'')"
  using shading_setter_validates[of "Some ''phong''" "tetra_visual None None None"]
    shading_setter_validates[of "Some ''flat''" "tetra_visual None None None"]
  by simp

subsection \<open>set_data\<close>

text \<open>
  C10: without \<open>meshdata\<close>, \<open>set_data\<close> replaces the stored mesh by the mesh that the
  constructor builds from the geometry arguments of the call, whatever was stored before;
  a call that passes only a colour stores the mesh built from no geometry; with
  \<open>meshdata\<close> that container is stored and the geometry arguments play no part.
\<close>

theorem set_data_replaces_mesh:
  "(MD vs fs vcs fcs = Inr m \<longrightarrow>
      (\<exists>s'. set_data MD vs fs vcs fcs None color s = Inr s' \<and> self_meshdata s' = m))
   \<and> (MD None None None None = Inr m0 \<longrightarrow>
      (\<exists>s'. set_data MD None None None None None (Some c) s = Inr s'
            \<and> self_meshdata s' = m0 \<and> self_color s' = c))
   \<and> (\<exists>s'. set_data MD vs fs vcs fcs (Some md) color s = Inr s' \<and> self_meshdata s' = md
            \<and> set_data MD' vs' fs' vcs' fcs' (Some md) color s = Inr s')"
proof (intro conjI impI)
  have stored: "self_meshdata (mesh_data_changed (x\<lparr>self_meshdata := k\<rparr>)) = k"
    "self_meshdata (mesh_data_changed (x\<lparr>self_meshdata := k, self_color := c'\<rparr>)) = k"
    "self_color (mesh_data_changed (x\<lparr>self_meshdata := k, self_color := c'\<rparr>)) = c'"
    for x :: "'a mesh" and k c'
    by (simp_all add: mesh_data_changed_def emit_def)
  {
    assume built: "MD vs fs vcs fcs = Inr m"
    show "\<exists>s'. set_data MD vs fs vcs fcs None color s = Inr s' \<and> self_meshdata s' = m"
      using built stored by (cases color) (simp_all add: set_data_def)
  }
  {
    assume empty: "MD None None None None = Inr m0"
    show "\<exists>s'. set_data MD None None None None None (Some c) s = Inr s'
            \<and> self_meshdata s' = m0 \<and> self_color s' = c"
      using empty stored by (simp add: set_data_def)
  }
  show "\<exists>s'. set_data MD vs fs vcs fcs (Some md) color s = Inr s' \<and> self_meshdata s' = md
            \<and> set_data MD' vs' fs' vcs' fcs' (Some md) color s = Inr s'"
    using stored by (cases color) (simp_all add: set_data_def)
qed

theorem set_data_replaces_mesh_witness:
  "MeshData radial_normals None None None None = Inr (mesh_of radial_normals [] [] None None)
   \<and> vertices (self_meshdata (tetra_visual None None None)) None = Inr tetra_vertices
   \<and> (\<exists>s'. set_data (MeshData radial_normals) None None None None None (Some (1, 0, 0, 1))
              (tetra_visual None None None) = Inr s'
          \<and> self_meshdata s' = mesh_of radial_normals [] [] None None
          \<and> vertices (self_meshdata s') None = Inr []
          \<and> self_color s' = (1, 0, 0, 1))"
proof -
  have e: "MeshData radial_normals None None None None = Inr (mesh_of radial_normals [] [] None None)"
    by (simp add: MeshData_def)
  have v: "vertices (self_meshdata (tetra_visual None None None)) None = Inr tetra_vertices"
    by (simp add: example_defs)
  have v0: "vertices (mesh_of radial_normals [] [] None None) None = Inr []"
    by (simp add: example_defs)
  from set_data_replaces_mesh[of "MeshData radial_normals" None None None None
      "mesh_of radial_normals [] [] None None" None "tetra_visual None None None"
      "mesh_of radial_normals [] [] None None" "(1, 0, 0, 1)"] e
  have "\<exists>s'. set_data (MeshData radial_normals) None None None None None (Some (1, 0, 0, 1))
              (tetra_visual None None None) = Inr s'
          \<and> self_meshdata s' = mesh_of radial_normals [] [] None None
          \<and> self_color s' = (1, 0, 0, 1)"
    by blast
  with e v v0 show ?thesis by auto
qed

subsection \<open>The lighting function\<close>

lemma clamp_pow: "glsl_pow (max 0 p) 100 = (max 0 p) ^ 100"
proof (cases "p \<le> 0")
  case True
  then show ?thesis by (auto simp: glsl_pow_def max_def)
next
  case False
  then have "0 < p" by simp
  then have "p powr 100 = p ^ 100"
    using powr_numeral[of p "num.Bit0 (num.Bit0 (num.Bit1 (num.Bit0 (num.Bit0 (num.Bit1 num.One)))))"]
    by simp
  with False show ?thesis by (simp add: glsl_pow_def max_def)
qed

lemma clamp_max: "(if p < 0 then 0 else p) = max 0 (p::real)"
  by (simp add: max_def)

lemma scale4_scale4: "scale4 (scale4 a k) m = scale4 a (k * m)"
  by (cases a) (simp add: scale4_def mult.assoc)

lemma phong_shading_spec:
  "phong_shading n ld lc amb c = lighting_spec n ld lc amb c"
  unfolding phong_shading_def lighting_spec_def Let_def view_axis_def
  by (simp only: clamp_max clamp_pow scale4_scale4)

lemma bind_program_lit:
  assumes "shading s \<noteq> None"
  shows "frag_color (self_program (bind_program s)) = Some (PhongCall default_phong v_color)"
    and "vert_v_normal (self_program (bind_program s)) = Some NormalsObj"
  using assms by (auto simp add: bind_program_def Let_def)

lemma bind_program_unlit:
  assumes "shading s = None"
  shows "frag_color (self_program (bind_program s)) = Some (Var v_color)"
    and "vert_v_normal (self_program (bind_program s)) = vert_v_normal (self_program s)"
  using assms by (simp_all add: bind_program_def Let_def)

lemma update_buffers_shading:
  "update_buffers s = Inr s' \<Longrightarrow> shading s' = shading s"
  using update_buffers_frame[of s s'] by (simp add: shading_def)

text \<open>
  C7: after a materialization with shading \<open>'flat'\<close> or \<open>'smooth'\<close> the fragment colour is the
  lighting function applied to the colour varying, its normal bound to the normal varying
  (fed from the normal buffer), its light direction to (1,1,1), its light colour to
  (1,1,1,1) and its ambient term to (0.3,0.3,0.3,1.0); what \<open>phong_template\<close> computes is
  the formula of the specification, for every colour and every normal.
\<close>

theorem lighting_bound_and_computed:
  assumes "shading s = Some ''flat'' \<or> shading s = Some ''smooth''"
    and "update_data s = Inr s'"
  shows "\<exists>f. frag_color (self_program s') = Some (PhongCall f v_color)
           \<and> phong_normal f = v_normal
           \<and> vert_v_normal (self_program s') = Some NormalsObj
           \<and> phong_light_dir f = (1, 1, 1)
           \<and> phong_light_color f = (1, 1, 1, 1)
           \<and> phong_ambient f = (3 / 10, 3 / 10, 3 / 10, 1)
           \<and> (\<forall>c n. eval_frag (PhongCall f v_color) c n =
                Some (lighting_spec n (1, 1, 1) (1, 1, 1, 1) (3 / 10, 3 / 10, 3 / 10, 1) c))"
proof -
  from assms(2) obtain s1 where s1: "update_buffers (emit UpdateData s) = Inr s1"
    and s': "s' = bind_program s1"
    by (auto simp: update_data_Inr)
  have "shading s1 = shading s"
    using update_buffers_shading[OF s1] by (simp add: emit_frame)
  with assms(1) have lit: "shading s1 \<noteq> None" by auto
  have "frag_color (self_program s') = Some (PhongCall default_phong v_color)"
    and "vert_v_normal (self_program s') = Some NormalsObj"
    using bind_program_lit[OF lit] by (simp_all add: s')
  moreover have "eval_frag (PhongCall default_phong v_color) c n =
      Some (lighting_spec n (1, 1, 1) (1, 1, 1, 1) (3 / 10, 3 / 10, 3 / 10, 1) c)" for c n
    by (simp add: default_phong_def phong_shading_spec)
  ultimately show ?thesis
    by (intro exI[of _ default_phong]) (simp add: default_phong_def)
qed

theorem lighting_bound_and_computed_witness:
  "(shading (tetra_visual None None (Some ''flat'')) = Some ''flat''
      \<or> shading (tetra_visual None None (Some ''flat'')) = Some ''smooth'')
   \<and> update_data (tetra_visual None None (Some ''flat''))
       = Inr (projr (update_data (tetra_visual None None (Some ''flat''))))
   \<and> (\<exists>f. frag_color (self_program (projr (update_data (tetra_visual None None (Some ''flat'')))))
             = Some (PhongCall f v_color)
          \<and> phong_light_dir f = (1, 1, 1)
          \<and> phong_light_color f = (1, 1, 1, 1)
          \<and> phong_ambient f = (3 / 10, 3 / 10, 3 / 10, 1)
          \<and> eval_frag (PhongCall f v_color) (1, 0, 0, 1) (0, 0, 1) =
              Some (lighting_spec (0, 0, 1) (1, 1, 1) (1, 1, 1, 1) (3 / 10, 3 / 10, 3 / 10, 1)
                      (1, 0, 0, 1)))"
proof -
  let ?a = "tetra_visual None None (Some ''flat'')"
  have sh: "shading ?a = Some ''flat''"
    by (simp add: tetra_visual_def new_visual_def shading_def)
  have a: "update_data ?a = Inr (projr (update_data ?a))"
    by (rule returns_projr) (simp add: run_defs example_defs)
  from lighting_bound_and_computed[OF disjI1[OF sh] a] sh a show ?thesis
    by blast
qed

subsection \<open>The indexed representation\<close>

lemma length_repeat_by_face: "length (repeat_by_face xs) = 3 * length xs"
  by (induction xs) (simp_all add: repeat_by_face_def)

lemma nth_repeat_by_face:
  "i < length xs \<Longrightarrow> j < 3 \<Longrightarrow> repeat_by_face xs ! (3 * i + j) = xs ! i"
proof (induction xs arbitrary: i)
  case Nil
  then show ?case by simp
next
  case (Cons x xs)
  have unfold: "repeat_by_face (x # xs) = x # x # x # repeat_by_face xs"
    by (simp add: repeat_by_face_def)
  show ?case
  proof (cases i)
    case 0
    with Cons.prems(2) have "j = 0 \<or> j = 1 \<or> j = 2" by auto
    with 0 show ?thesis by (auto simp: unfold)
  next
    case (Suc k)
    with Cons.prems have k: "k < length xs" by simp
    have "3 * i + j = Suc (Suc (Suc (3 * k + j)))" using Suc by simp
    then show ?thesis
      using Cons.IH[OF k Cons.prems(2)] Suc by (simp add: unfold)
  qed
qed

lemma mesh_of_queries:
  "has_face_indexed_data (mesh_of N vs fs vcs fcs) = False"
  "has_vertex_color (mesh_of N vs fs vcs fcs) = (vcs \<noteq> None)"
  "has_face_color (mesh_of N vs fs vcs fcs) = (fcs \<noteq> None)"
  "faces (mesh_of N vs fs vcs fcs) = Inr fs"
  "vertices (mesh_of N vs fs vcs fcs) None = Inr vs"
  by (simp_all add: mesh_of_def Let_def select_indexed_def)

lemma mesh_of_by_face:
  assumes "faces_in_range (length vs) fs"
  shows "vertices (mesh_of N vs fs vcs fcs) (Some ''faces'') = Inr (index_by_face vs fs)"
    and "face_normals (mesh_of N vs fs vcs fcs) (Some ''faces'') =
           Inr (repeat_by_face (map (\<lambda>(a, b, c). face_normal N (vs ! a) (vs ! b) (vs ! c)) fs))"
    and "vertex_normals (mesh_of N vs fs vcs fcs) (Some ''faces'') =
           Inr (index_by_face (map (vertex_normal N vs fs) [0..<length vs]) fs)"
    and "vertex_normals (mesh_of N vs fs vcs fcs) None =
           Inr (map (vertex_normal N vs fs) [0..<length vs])"
    and "length cs = length vs \<Longrightarrow>
           vertex_colors (mesh_of N vs fs (Some cs) fcs) (Some ''faces'') = Inr (index_by_face cs fs)"
    and "length cs = length vs \<Longrightarrow>
           vertex_colors (mesh_of N vs fs (Some cs) fcs) None = Inr cs"
    and "length cs = length fs \<Longrightarrow>
           face_colors (mesh_of N vs fs vcs (Some cs)) (Some ''faces'') = Inr (repeat_by_face cs)"
    and "length cs = length fs \<Longrightarrow>
           face_colors (mesh_of N vs fs vcs (Some cs)) None = Inr cs"
  using assms by (simp_all add: mesh_of_def Let_def select_indexed_def)

lemma indexed_path_returns:
  assumes "shading s = Some ''smooth''"
    and "\<not> has_face_indexed_data (self_meshdata s)"
    and "vertices (self_meshdata s) None = Inr vs"
    and "vertex_normals (self_meshdata s) None = Inr ns"
    and "faces (self_meshdata s) = Inr fs"
    and "has_vertex_color (self_meshdata s) \<longrightarrow> vertex_colors (self_meshdata s) None = Inr vcs"
    and "has_face_color (self_meshdata s) \<longrightarrow> face_colors (self_meshdata s) None = Inr fcs"
  shows "\<exists>s'. update_buffers s = Inr s'"
  using assms by (auto simp: materialize_defs)

lemma expanded_path_returns:
  assumes "\<not> (shading s = Some ''smooth'' \<and> \<not> has_face_indexed_data (self_meshdata s))"
    and "vertices (self_meshdata s) (Some ''faces'') = Inr vs"
    and "shading s = Some ''smooth'' \<longrightarrow> vertex_normals (self_meshdata s) (Some ''faces'') = Inr ns"
    and "shading s = Some ''flat'' \<longrightarrow> face_normals (self_meshdata s) (Some ''faces'') = Inr ns"
    and "has_vertex_color (self_meshdata s) \<longrightarrow>
           vertex_colors (self_meshdata s) (Some ''faces'') = Inr vcs"
    and "\<not> has_vertex_color (self_meshdata s) \<and> has_face_color (self_meshdata s) \<longrightarrow>
           face_colors (self_meshdata s) (Some ''faces'') = Inr fcs"
  shows "\<exists>s'. update_buffers s = Inr s'"
  using assms by (auto simp: materialize_defs)

lemma update_data_returns:
  "update_buffers (emit UpdateData s) = Inr s1 \<Longrightarrow> update_data s = Inr (bind_program s1)"
  by (simp add: update_data_def then_do_def)

lemma indexed_materialization:
  assumes sm: "shading s = Some ''smooth''"
    and nf: "\<not> has_face_indexed_data (self_meshdata s)"
    and v: "vertices (self_meshdata s) None = Inr vs"
    and n: "vertex_normals (self_meshdata s) None = Inr ns"
    and f: "faces (self_meshdata s) = Inr fs"
    and vc: "has_vertex_color (self_meshdata s) \<longrightarrow> vertex_colors (self_meshdata s) None = Inr vcs"
    and fc: "has_face_color (self_meshdata s) \<longrightarrow> face_colors (self_meshdata s) None = Inr fcs"
  shows "\<exists>s'. update_data s = Inr s'
           \<and> self_indexed s' = Some True
           \<and> vert_position (self_program s') = Some (VerticesObj (self_vertices s'))
           \<and> gpu s' (VerticesObj (self_vertices s')) = vs
           \<and> gpu s' NormalsObj = ns
           \<and> self_faces s' = fs
           \<and> (has_vertex_color (self_meshdata s) \<and> \<not> has_face_color (self_meshdata s) \<longrightarrow>
                gpu s' ColorsObj = vcs)"
proof -
  let ?s0 = "emit UpdateData s"
  have sm0: "shading ?s0 = Some ''smooth''"
    and nf0: "\<not> has_face_indexed_data (self_meshdata ?s0)"
    using sm nf by (simp_all add: emit_frame)
  obtain s1 where s1: "update_buffers ?s0 = Inr s1"
    using indexed_path_returns[of ?s0 vs ns fs vcs fcs] sm nf v n f vc fc
    by (auto simp: emit_frame)
  note P = indexed_path[OF sm0 nf0 s1]
  have "update_data s = Inr (bind_program s1)"
    by (rule update_data_returns[OF s1])
  moreover have "self_indexed (bind_program s1) = Some True"
    using P(1) by (simp add: bind_program_frame)
  moreover have "vert_position (self_program (bind_program s1))
      = Some (VerticesObj (self_vertices (bind_program s1)))"
    by (cases "shading s1 = None") (simp_all add: bind_program_def Let_def)
  moreover have "gpu (bind_program s1) (VerticesObj (self_vertices (bind_program s1))) = vs"
    using P(2,3) v by (simp add: bind_program_frame emit_frame)
  moreover have "gpu (bind_program s1) NormalsObj = ns"
    using P(4) n by (simp add: bind_program_frame emit_frame)
  moreover have "self_faces (bind_program s1) = fs"
    using P(5) f by (simp add: bind_program_frame emit_frame)
  moreover have "gpu (bind_program s1) ColorsObj = vcs"
    if "has_vertex_color (self_meshdata s)" "\<not> has_face_color (self_meshdata s)"
    using P(7) that vc by (simp add: bind_program_frame emit_frame)
  ultimately show ?thesis by blast
qed

lemma mesh_of_vertex_colors_shared:
  "vertex_colors (mesh_of N vs fs (Some cs) fcs) None = Inr a \<Longrightarrow> a = cs \<and> length cs = length vs"
  by (auto simp: mesh_of_def Let_def select_indexed_def split: if_splits)

text \<open>
  C3: with shading \<open>'smooth'\<close> and a mesh without face-indexed data, a materialization whose
  queries answer returns with the indexed representation: the position buffer holds the
  vertex array of the mesh as it is, the normal buffer the normals per vertex, the index
  buffer the faces, and with colours per vertex only the colour buffer holds them. For
  the container after the specification with colours per vertex only, the materialization
  returns when the mesh is well formed, and whenever it returns the colour buffer is as
  long as the vertex array.
\<close>

theorem smooth_shared_is_indexed:
  assumes sm: "shading s = Some ''smooth''"
    and nf: "\<not> has_face_indexed_data (self_meshdata s)"
  shows "(vertices (self_meshdata s) None = Inr vs
          \<and> vertex_normals (self_meshdata s) None = Inr ns
          \<and> faces (self_meshdata s) = Inr fs
          \<and> (has_vertex_color (self_meshdata s) \<longrightarrow> vertex_colors (self_meshdata s) None = Inr vcs)
          \<and> (has_face_color (self_meshdata s) \<longrightarrow> face_colors (self_meshdata s) None = Inr fcs)
          \<longrightarrow> (\<exists>s'. update_data s = Inr s'
                 \<and> self_indexed s' = Some True
                 \<and> vert_position (self_program s') = Some (VerticesObj (self_vertices s'))
                 \<and> gpu s' (VerticesObj (self_vertices s')) = vs
                 \<and> gpu s' NormalsObj = ns
                 \<and> self_faces s' = fs
                 \<and> (has_vertex_color (self_meshdata s) \<and> \<not> has_face_color (self_meshdata s)
                      \<longrightarrow> gpu s' ColorsObj = vcs)))
       \<and> (self_meshdata s = mesh_of N vs0 fs0 (Some cs) None \<longrightarrow>
            (faces_in_range (length vs0) fs0 \<and> length cs = length vs0
               \<longrightarrow> (\<exists>s'. update_data s = Inr s'))
            \<and> (\<forall>s'. update_data s = Inr s' \<longrightarrow>
                 self_indexed s' = Some True
                 \<and> gpu s' (VerticesObj (self_vertices s')) = vs0
                 \<and> gpu s' ColorsObj = cs
                 \<and> length (gpu s' ColorsObj) = length (gpu s' (VerticesObj (self_vertices s')))))"
proof (intro conjI impI allI)
  assume q: "vertices (self_meshdata s) None = Inr vs
          \<and> vertex_normals (self_meshdata s) None = Inr ns
          \<and> faces (self_meshdata s) = Inr fs
          \<and> (has_vertex_color (self_meshdata s) \<longrightarrow> vertex_colors (self_meshdata s) None = Inr vcs)
          \<and> (has_face_color (self_meshdata s) \<longrightarrow> face_colors (self_meshdata s) None = Inr fcs)"
  then show "\<exists>s'. update_data s = Inr s'
                 \<and> self_indexed s' = Some True
                 \<and> vert_position (self_program s') = Some (VerticesObj (self_vertices s'))
                 \<and> gpu s' (VerticesObj (self_vertices s')) = vs
                 \<and> gpu s' NormalsObj = ns
                 \<and> self_faces s' = fs
                 \<and> (has_vertex_color (self_meshdata s) \<and> \<not> has_face_color (self_meshdata s)
                      \<longrightarrow> gpu s' ColorsObj = vcs)"
    using indexed_materialization[OF sm nf, of vs ns fs vcs fcs] by blast
next
  assume m: "self_meshdata s = mesh_of N vs0 fs0 (Some cs) None"
  assume wf: "faces_in_range (length vs0) fs0 \<and> length cs = length vs0"
  then have rg: "faces_in_range (length vs0) fs0" and len: "length cs = length vs0"
    by simp_all
  have "\<exists>s'. update_data s = Inr s' \<and> self_indexed s' = Some True"
    using indexed_materialization[OF sm nf, of vs0 "map (vertex_normal N vs0 fs0) [0..<length vs0]"
        fs0 cs "[]"] mesh_of_by_face(4,6)[OF rg] len
    by (simp add: m mesh_of_queries) blast
  then show "\<exists>s'. update_data s = Inr s'" by blast
next
  fix s'
  assume m: "self_meshdata s = mesh_of N vs0 fs0 (Some cs) None"
    and r: "update_data s = Inr s'"
  let ?s0 = "emit UpdateData s"
  from r obtain s1 where s1: "update_buffers ?s0 = Inr s1" and s': "s' = bind_program s1"
    by (auto simp: update_data_Inr)
  have sm0: "shading ?s0 = Some ''smooth''"
    and nf0: "\<not> has_face_indexed_data (self_meshdata ?s0)"
    using sm nf by (simp_all add: emit_frame)
  note P = indexed_path[OF sm0 nf0 s1]
  show ix: "self_indexed s' = Some True"
    using P(1) by (simp add: s' bind_program_frame)
  show vb: "gpu s' (VerticesObj (self_vertices s')) = vs0"
    using P(2,3) by (simp add: s' bind_program_frame emit_frame m mesh_of_queries)
  have "vertex_colors (mesh_of N vs0 fs0 (Some cs) None) None = Inr (gpu s1 ColorsObj)"
    using P(7) by (simp add: emit_frame m mesh_of_queries)
  from mesh_of_vertex_colors_shared[OF this]
  have c: "gpu s1 ColorsObj = cs" and len: "length cs = length vs0" by simp_all
  show cb: "gpu s' ColorsObj = cs"
    using c by (simp add: s' bind_program_frame)
  show "length (gpu s' ColorsObj) = length (gpu s' (VerticesObj (self_vertices s')))"
    using cb vb len by simp
qed

theorem smooth_shared_is_indexed_witness:
  "shading (tetra_visual (Some tetra_vertex_colors) None (Some ''smooth'')) = Some ''smooth''
   \<and> \<not> has_face_indexed_data (self_meshdata (tetra_visual (Some tetra_vertex_colors) None (Some ''smooth'')))
   \<and> self_meshdata (tetra_visual (Some tetra_vertex_colors) None (Some ''smooth''))
       = mesh_of radial_normals tetra_vertices tetra_faces (Some tetra_vertex_colors) None
   \<and> faces_in_range (length tetra_vertices) tetra_faces
   \<and> length tetra_vertex_colors = length tetra_vertices
   \<and> (\<exists>s'. update_data (tetra_visual (Some tetra_vertex_colors) None (Some ''smooth'')) = Inr s'
          \<and> self_indexed s' = Some True
          \<and> gpu s' (VerticesObj (self_vertices s')) = tetra_vertices
          \<and> gpu s' NormalsObj = tetra_vertices
          \<and> self_faces s' = tetra_faces
          \<and> gpu s' ColorsObj = tetra_vertex_colors
          \<and> length (gpu s' ColorsObj) = 4
          \<and> length (gpu s' (VerticesObj (self_vertices s'))) = 4)"
proof -
  let ?s = "tetra_visual (Some tetra_vertex_colors) None (Some ''smooth'')"
  let ?m = "mesh_of radial_normals tetra_vertices tetra_faces (Some tetra_vertex_colors) None"
  have m: "self_meshdata ?s = ?m" and sh: "shading ?s = Some ''smooth''"
    by (simp_all add: tetra_visual_def tetra_def new_visual_def shading_def)
  have nf: "\<not> has_face_indexed_data (self_meshdata ?s)"
    by (simp add: m mesh_of_queries)
  have rg: "faces_in_range (length tetra_vertices) tetra_faces"
    by (simp add: faces_in_range_def tetra_vertices_def tetra_faces_def)
  have len: "length tetra_vertex_colors = length tetra_vertices"
    by (simp add: tetra_vertex_colors_def tetra_vertices_def)
  have q: "has_vertex_color ?m" "\<not> has_face_color ?m"
    "vertices ?m None = Inr tetra_vertices" "faces ?m = Inr tetra_faces"
    by (simp_all add: mesh_of_queries)
  have n: "vertex_normals ?m None = Inr tetra_vertices"
    using mesh_of_by_face(4)[OF rg, of radial_normals "Some tetra_vertex_colors" None]
    by (simp add: radial_normals_def tetra_vertices_def upt_rec)
  have c: "vertex_colors ?m None = Inr tetra_vertex_colors"
    using mesh_of_by_face(6)[OF rg len] by simp
  note inst = smooth_shared_is_indexed[OF sh nf, of tetra_vertices tetra_vertices tetra_faces
      tetra_vertex_colors "[]" radial_normals tetra_vertices tetra_faces tetra_vertex_colors]
  from inst q n c obtain s' where r: "update_data ?s = Inr s'"
    and a: "self_indexed s' = Some True"
      "gpu s' (VerticesObj (self_vertices s')) = tetra_vertices"
      "gpu s' NormalsObj = tetra_vertices" "self_faces s' = tetra_faces"
      "gpu s' ColorsObj = tetra_vertex_colors"
    by (auto simp: m)
  from inst m r have "length (gpu s' ColorsObj) = length (gpu s' (VerticesObj (self_vertices s')))"
    by blast
  moreover have "length tetra_vertices = 4" by (simp add: tetra_vertices_def)
  ultimately show ?thesis using sh nf m rg len r a by auto
qed

subsection \<open>The expanded representation\<close>

lemma draw_dirty:
  assumes "self_data_changed s"
  shows "draw T s = then_do (update_data (emit SetState s)) (\<lambda>s1. Inr (submit T s1))"
  using assms by (simp add: draw_def Let_def emit_frame)

lemma submit_frame:
  "self_indexed (submit T s) = self_indexed s"
  "self_faces (submit T s) = self_faces s"
  "gpu (submit T s) = gpu s"
  "self_vertices (submit T s) = self_vertices s"
  "self_data_changed (submit T s) = self_data_changed s"
  "self_meshdata (submit T s) = self_meshdata s"
  "self_color (submit T s) = self_color s"
  "shading (submit T s) = shading s"
  "trace (submit T s) = trace s @ [if self_indexed s = Some True then DrawIndexed (self_faces s) else DrawArrays]"
  by (simp_all add: submit_def Let_def emit_def shading_def)

text \<open>
  C4: with shading \<open>'flat'\<close> a materialization that returns has chosen the expanded
  representation: the flag is \<open>False\<close>, the index buffer is not written, the triangles are
  submitted without an index buffer, and the normal buffer holds the face normals indexed
  by face. For a well-formed mesh of the container after the specification it returns,
  the normal buffer has three rows per face, and each of the three rows of a face is the
  normal of that face.
\<close>

theorem flat_is_expanded:
  assumes fl: "shading s = Some ''flat''"
  shows "(\<forall>s'. update_data s = Inr s' \<longrightarrow>
            self_indexed s' = Some False \<and> self_faces s' = self_faces s
            \<and> face_normals (self_meshdata s) (Some ''faces'') = Inr (gpu s' NormalsObj)
            \<and> trace (submit T s') = trace s' @ [DrawArrays])
       \<and> (self_meshdata s = mesh_of N vs fs vcs fcs \<and> faces_in_range (length vs) fs
            \<and> (\<forall>cs. vcs = Some cs \<longrightarrow> length cs = length vs)
            \<and> (\<forall>cs. fcs = Some cs \<longrightarrow> length cs = length fs) \<longrightarrow>
          (\<exists>s'. update_data s = Inr s'
             \<and> self_indexed s' = Some False
             \<and> length (gpu s' NormalsObj) = 3 * length fs
             \<and> (\<forall>i < length fs. \<forall>j < 3.
                  gpu s' NormalsObj ! (3 * i + j) =
                    (case fs ! i of (a, b, c) \<Rightarrow> face_normal N (vs ! a) (vs ! b) (vs ! c)))))"
proof (intro conjI allI impI)
  let ?s0 = "emit UpdateData s"
  have ex: "\<not> (shading ?s0 = Some ''smooth'' \<and> \<not> has_face_indexed_data (self_meshdata ?s0))"
    and fl0: "shading ?s0 = Some ''flat''"
    using fl by (simp_all add: emit_frame)
  {
    fix s' assume r: "update_data s = Inr s'"
    then obtain s1 where s1: "update_buffers ?s0 = Inr s1" and s': "s' = bind_program s1"
      by (auto simp: update_data_Inr)
    note P = expanded_path[OF ex s1]
    show "self_indexed s' = Some False"
      using P(1) by (simp add: s' bind_program_frame)
    then show "trace (submit T s') = trace s' @ [DrawArrays]"
      by (simp add: submit_frame)
    show "self_faces s' = self_faces s"
      using P(3) by (simp add: s' bind_program_frame emit_frame)
    show "face_normals (self_meshdata s) (Some ''faces'') = Inr (gpu s' NormalsObj)"
      using P(6)[OF fl0] by (simp add: s' bind_program_frame emit_frame)
  }
  assume wf: "self_meshdata s = mesh_of N vs fs vcs fcs \<and> faces_in_range (length vs) fs
            \<and> (\<forall>cs. vcs = Some cs \<longrightarrow> length cs = length vs)
            \<and> (\<forall>cs. fcs = Some cs \<longrightarrow> length cs = length fs)"
  then have m: "self_meshdata s = mesh_of N vs fs vcs fcs"
    and rg: "faces_in_range (length vs) fs" by simp_all
  let ?fn = "map (\<lambda>(a, b, c). face_normal N (vs ! a) (vs ! b) (vs ! c)) fs"
  have fnq: "face_normals (self_meshdata s) (Some ''faces'') = Inr (repeat_by_face ?fn)"
    using mesh_of_by_face(2)[OF rg] by (simp add: m)
  have vq: "vertices (self_meshdata s) (Some ''faces'') = Inr (index_by_face vs fs)"
    using mesh_of_by_face(1)[OF rg] by (simp add: m)
  have vcq: "has_vertex_color (self_meshdata s) \<longrightarrow>
      vertex_colors (self_meshdata s) (Some ''faces'') = Inr (index_by_face (the vcs) fs)"
    using wf mesh_of_by_face(5)[OF rg] by (auto simp: m mesh_of_queries)
  have fcq: "\<not> has_vertex_color (self_meshdata s) \<and> has_face_color (self_meshdata s) \<longrightarrow>
      face_colors (self_meshdata s) (Some ''faces'') = Inr (repeat_by_face (the fcs))"
    using wf mesh_of_by_face(7)[OF rg] by (auto simp: m mesh_of_queries)
  obtain s1 where s1: "update_buffers ?s0 = Inr s1"
    using expanded_path_returns[of ?s0 "index_by_face vs fs" "repeat_by_face ?fn"
        "index_by_face (the vcs) fs" "repeat_by_face (the fcs)"] ex fl vq fnq vcq fcq
    by (auto simp: emit_frame)
  note P = expanded_path[OF ex s1]
  have nb: "gpu (bind_program s1) NormalsObj = repeat_by_face ?fn"
    using P(6)[OF fl0] fnq by (simp add: bind_program_frame emit_frame)
  have "update_data s = Inr (bind_program s1)"
    by (rule update_data_returns[OF s1])
  moreover have "self_indexed (bind_program s1) = Some False"
    using P(1) by (simp add: bind_program_frame)
  moreover have "length (gpu (bind_program s1) NormalsObj) = 3 * length fs"
    by (simp add: nb length_repeat_by_face)
  moreover have "gpu (bind_program s1) NormalsObj ! (3 * i + j) =
        (case fs ! i of (a, b, c) \<Rightarrow> face_normal N (vs ! a) (vs ! b) (vs ! c))"
    if "i < length fs" "j < 3" for i j
    using that by (simp add: nb nth_repeat_by_face)
  ultimately show "\<exists>s'. update_data s = Inr s'
             \<and> self_indexed s' = Some False
             \<and> length (gpu s' NormalsObj) = 3 * length fs
             \<and> (\<forall>i < length fs. \<forall>j < 3.
                  gpu s' NormalsObj ! (3 * i + j) =
                    (case fs ! i of (a, b, c) \<Rightarrow> face_normal N (vs ! a) (vs ! b) (vs ! c)))"
    by blast
qed

theorem flat_is_expanded_witness:
  "shading (tetra_visual None None (Some ''flat'')) = Some ''flat''
   \<and> self_meshdata (tetra_visual None None (Some ''flat''))
       = mesh_of radial_normals tetra_vertices tetra_faces None None
   \<and> faces_in_range (length tetra_vertices) tetra_faces
   \<and> (\<exists>s'. update_data (tetra_visual None None (Some ''flat'')) = Inr s'
          \<and> self_indexed s' = Some False
          \<and> self_faces s' = []
          \<and> length (gpu s' NormalsObj) = 12
          \<and> gpu s' NormalsObj ! 3 = [1, -1, 1]
          \<and> gpu s' NormalsObj ! 4 = [1, -1, 1]
          \<and> gpu s' NormalsObj ! 5 = [1, -1, 1]
          \<and> trace (submit () s') = trace s' @ [DrawArrays])"
proof -
  let ?s = "tetra_visual None None (Some ''flat'')"
  have sh: "shading ?s = Some ''flat''"
    and m: "self_meshdata ?s = mesh_of radial_normals tetra_vertices tetra_faces None None"
    and f0: "self_faces ?s = []"
    by (simp_all add: tetra_visual_def tetra_def new_visual_def shading_def)
  have rg: "faces_in_range (length tetra_vertices) tetra_faces"
    by (simp add: faces_in_range_def tetra_vertices_def tetra_faces_def)
  have len: "length tetra_faces = 4" by (simp add: tetra_faces_def)
  have f1: "(case tetra_faces ! 1 of (a, b, c) \<Rightarrow>
      face_normal radial_normals (tetra_vertices ! a) (tetra_vertices ! b) (tetra_vertices ! c))
      = [1, -1, 1]"
    by (simp add: tetra_faces_def tetra_vertices_def radial_normals_def)
  note inst = flat_is_expanded[OF sh, of "()" radial_normals tetra_vertices tetra_faces None None]
  from inst m rg obtain s' where r: "update_data ?s = Inr s'"
    and ix: "self_indexed s' = Some False"
    and ln: "length (gpu s' NormalsObj) = 3 * length tetra_faces"
    and nth: "\<forall>i < length tetra_faces. \<forall>j < 3. gpu s' NormalsObj ! (3 * i + j) =
       (case tetra_faces ! i of (a, b, c) \<Rightarrow>
          face_normal radial_normals (tetra_vertices ! a) (tetra_vertices ! b) (tetra_vertices ! c))"
    by auto
  from inst r have fs: "self_faces s' = self_faces ?s"
    and tr: "trace (submit () s') = trace s' @ [DrawArrays]"
    by blast+
  have corner: "gpu s' NormalsObj ! (3 * 1 + j) = [1, -1, 1]" if "j < 3" for j
  proof -
    have "(1::nat) < length tetra_faces" by (simp add: len)
    with nth that have "gpu s' NormalsObj ! (3 * 1 + j) =
       (case tetra_faces ! 1 of (a, b, c) \<Rightarrow>
          face_normal radial_normals (tetra_vertices ! a) (tetra_vertices ! b) (tetra_vertices ! c))"
      by blast
    with f1 show ?thesis by simp
  qed
  have "gpu s' NormalsObj ! (3 * 1 + 0) = [1, -1, 1]" "gpu s' NormalsObj ! (3 * 1 + 1) = [1, -1, 1]"
    "gpu s' NormalsObj ! (3 * 1 + 2) = [1, -1, 1]"
    by (rule corner, simp)+
  then have "gpu s' NormalsObj ! 3 = [1, -1, 1]" "gpu s' NormalsObj ! 4 = [1, -1, 1]"
    "gpu s' NormalsObj ! 5 = [1, -1, 1]"
    by simp_all
  with r ix ln len fs f0 tr sh m rg show ?thesis by auto
qed

subsection \<open>No shading\<close>

lemmas history_defs =
  draw_def submit_def shading_setter_def allowed_shading_def set_data_def
  mesh_data_changed_def MeshData_def triangle_vertices_def triangle_faces_def
  short_colors_def after_flat_draw_def shading_off_def after_smooth_draw_def
  switched_flat_def reloaded_def set_once_def drawn_twice_def bad_faces_def
  reloaded_bad_faces_def

text \<open>
  C5, as stated, fails: a materialization with shading \<open>None\<close> does not empty the normal
  buffer. After a draw with flat shading and \<open>shading = None\<close>, the next materialization
  leaves the twelve normals of the tetrahedron in the buffer.
\<close>

theorem stale_normals_after_unlit:
  "draw () (tetra_visual None None (Some ''flat'')) = Inr after_flat_draw
   \<and> shading_setter None after_flat_draw = Inr shading_off
   \<and> shading shading_off = None
   \<and> update_data shading_off = Inr (projr (update_data shading_off))
   \<and> length (gpu (projr (update_data shading_off)) NormalsObj) = 12
   \<and> gpu (projr (update_data shading_off)) NormalsObj \<noteq> []"
proof -
  have d: "draw () (tetra_visual None None (Some ''flat'')) = Inr after_flat_draw"
    unfolding after_flat_draw_def
    by (rule returns_projr) (simp add: draw_def submit_def run_defs example_defs)
  have o: "shading_setter None after_flat_draw = Inr shading_off"
    unfolding shading_off_def
    by (rule returns_projr) (simp add: shading_setter_def allowed_shading_def)
  have sh: "shading shading_off = None"
    by (simp add: shading_off_def shading_setter_def allowed_shading_def shading_def)
  have r: "update_data shading_off = Inr (projr (update_data shading_off))"
    by (rule returns_projr) (simp add: history_defs run_defs example_defs)
  have n: "length (gpu (projr (update_data shading_off)) NormalsObj) = 12"
    by (simp add: history_defs run_defs example_defs)
  then have "gpu (projr (update_data shading_off)) NormalsObj \<noteq> []" by auto
  with d o n sh r show ?thesis by simp
qed

text \<open>
  C5, amended: a materialization with shading \<open>None\<close> does not write the normal buffer (so it
  is empty for a visual that has just been constructed), and the fragment colour is the
  colour varying unchanged, which is bound to the uniform colour or to the colour
  attribute buffer.
\<close>

theorem unlit_passes_color_through:
  assumes un: "shading s = None"
    and r: "update_data s = Inr s'"
  shows "gpu s' NormalsObj = gpu s NormalsObj
       \<and> (\<forall>m col. s = new_visual m col None \<longrightarrow> gpu s' NormalsObj = [])
       \<and> frag_color (self_program s') = Some (Var v_color)
       \<and> (\<forall>c n. eval_frag (Var v_color) c n = Some c)
       \<and> vert_v_color (self_program s') =
           Some (if \<not> has_vertex_color (self_meshdata s) \<and> \<not> has_face_color (self_meshdata s)
                 then Uniform (self_color s) else Attribute ColorsObj)"
proof -
  let ?s0 = "emit UpdateData s"
  from r obtain s1 where s1: "update_buffers ?s0 = Inr s1" and s': "s' = bind_program s1"
    by (auto simp: update_data_Inr)
  have ex: "\<not> (shading ?s0 = Some ''smooth'' \<and> \<not> has_face_indexed_data (self_meshdata ?s0))"
    using un by (simp add: emit_frame)
  have keep: "gpu s' NormalsObj = gpu s NormalsObj"
    using expanded_path(7)[OF ex s1] un by (simp add: s' bind_program_frame emit_frame)
  have fr: "self_meshdata s1 = self_meshdata s" "self_color s1 = self_color s"
    using update_buffers_frame[of ?s0 s1] s1 by (simp_all add: emit_frame)
  have un1: "shading s1 = None"
    using update_buffers_shading[OF s1] un by (simp add: emit_frame)
  have "frag_color (self_program s') = Some (Var v_color)"
    using bind_program_unlit(1)[OF un1] by (simp add: s')
  moreover have "vert_v_color (self_program s') =
           Some (if \<not> has_vertex_color (self_meshdata s) \<and> \<not> has_face_color (self_meshdata s)
                 then Uniform (self_color s) else Attribute ColorsObj)"
    using un1 by (simp add: s' bind_program_def Let_def fr)
  moreover have "\<forall>m col. s = new_visual m col None \<longrightarrow> gpu s' NormalsObj = []"
    using keep by (auto simp: new_visual_def)
  ultimately show ?thesis using keep by simp
qed

theorem unlit_passes_color_through_witness:
  "shading (tetra_visual None None None) = None
   \<and> update_data (tetra_visual None None None)
       = Inr (projr (update_data (tetra_visual None None None)))
   \<and> gpu (projr (update_data (tetra_visual None None None))) NormalsObj = []
   \<and> frag_color (self_program (projr (update_data (tetra_visual None None None))))
       = Some (Var v_color)
   \<and> eval_frag (Var v_color) (1, 0, 0, 1) (0, 0, 1) = Some (1, 0, 0, 1)
   \<and> vert_v_color (self_program (projr (update_data (tetra_visual None None None))))
       = Some (Uniform default_color)"
proof -
  let ?s = "tetra_visual None None None"
  have sh: "shading ?s = None"
    by (simp add: tetra_visual_def new_visual_def shading_def)
  have r: "update_data ?s = Inr (projr (update_data ?s))"
    by (rule returns_projr) (simp add: run_defs example_defs)
  have q: "\<not> has_vertex_color (self_meshdata ?s)" "\<not> has_face_color (self_meshdata ?s)"
    "self_color ?s = default_color" "?s = new_visual (tetra None None) default_color None"
    by (simp_all add: tetra_visual_def new_visual_def tetra_def mesh_of_queries)
  have n0: "gpu ?s NormalsObj = []"
    by (simp add: tetra_visual_def new_visual_def)
  have ev: "eval_frag (Var v_color) (1, 0, 0, 1) (0, 0, 1) = Some (1, 0, 0, 1)"
    by simp
  from unlit_passes_color_through[OF sh r]
  have "gpu (projr (update_data ?s)) NormalsObj = gpu ?s NormalsObj"
    and "frag_color (self_program (projr (update_data ?s))) = Some (Var v_color)"
    and "vert_v_color (self_program (projr (update_data ?s))) =
           Some (if \<not> has_vertex_color (self_meshdata ?s) \<and> \<not> has_face_color (self_meshdata ?s)
                 then Uniform (self_color ?s) else Attribute ColorsObj)"
    by blast+
  with q(1,2,3) n0 ev sh r show ?thesis
    by simp
qed

subsection \<open>A materialization that fails\<close>

text \<open>
  C8, as stated, fails: there is no roll-back. In the third history the derivation of the
  normals raises after the position buffer, to which the program is bound, has been
  overwritten in place. In the second history the colour query raises after the position
  buffer has been replaced, the normal buffer rewritten and the representation flag set
  to \<open>False\<close>.
\<close>

theorem failed_materialization_not_atomic:
  "draw () (tetra_visual None None (Some ''smooth'')) = Inr after_smooth_draw
   \<and> set_data (MeshData radial_normals) (Some triangle_vertices) (Some bad_faces)
         None None None None after_smooth_draw = Inr reloaded_bad_faces
   \<and> isl (draw () reloaded_bad_faces)
   \<and> fst (projl (draw () reloaded_bad_faces)) = InvalidMeshError
   \<and> vert_position (self_program reloaded_bad_faces) = Some (VerticesObj 0)
   \<and> gpu reloaded_bad_faces (VerticesObj 0) = tetra_vertices
   \<and> gpu (snd (projl (draw () reloaded_bad_faces))) (VerticesObj 0) = triangle_vertices
   \<and> tetra_vertices \<noteq> triangle_vertices
   \<and> shading_setter (Some ''flat'') after_smooth_draw = Inr switched_flat
   \<and> set_data (MeshData radial_normals) (Some triangle_vertices) (Some triangle_faces)
         (Some short_colors) None None None switched_flat = Inr reloaded
   \<and> isl (draw () reloaded)
   \<and> fst (projl (draw () reloaded)) = InvalidMeshError
   \<and> self_indexed reloaded = Some True
   \<and> self_indexed (snd (projl (draw () reloaded))) = Some False
   \<and> gpu reloaded NormalsObj = tetra_vertices
   \<and> gpu (snd (projl (draw () reloaded))) NormalsObj = [[1, 1, 0], [1, 1, 0], [1, 1, 0]]
   \<and> self_data_changed (snd (projl (draw () reloaded)))"
proof -
  have d: "draw () (tetra_visual None None (Some ''smooth'')) = Inr after_smooth_draw"
    unfolding after_smooth_draw_def
    by (rule returns_projr) (simp add: draw_def submit_def run_defs example_defs)
  have b: "set_data (MeshData radial_normals) (Some triangle_vertices) (Some bad_faces)
         None None None None after_smooth_draw = Inr reloaded_bad_faces"
    unfolding reloaded_bad_faces_def
    by (rule returns_projr) (simp add: set_data_def MeshData_def)
  have first: "isl (draw () reloaded_bad_faces)
   \<and> fst (projl (draw () reloaded_bad_faces)) = InvalidMeshError
   \<and> vert_position (self_program reloaded_bad_faces) = Some (VerticesObj 0)
   \<and> gpu reloaded_bad_faces (VerticesObj 0) = tetra_vertices
   \<and> gpu (snd (projl (draw () reloaded_bad_faces))) (VerticesObj 0) = triangle_vertices
   \<and> tetra_vertices \<noteq> triangle_vertices"
    by (simp add: history_defs run_defs example_defs)
  have f: "shading_setter (Some ''flat'') after_smooth_draw = Inr switched_flat"
    unfolding switched_flat_def
    by (rule returns_projr) (simp add: shading_setter_def allowed_shading_def)
  have l: "set_data (MeshData radial_normals) (Some triangle_vertices) (Some triangle_faces)
         (Some short_colors) None None None switched_flat = Inr reloaded"
    unfolding reloaded_def
    by (rule returns_projr) (simp add: set_data_def MeshData_def)
  have second: "isl (draw () reloaded)
   \<and> fst (projl (draw () reloaded)) = InvalidMeshError
   \<and> self_indexed reloaded = Some True
   \<and> self_indexed (snd (projl (draw () reloaded))) = Some False
   \<and> gpu reloaded NormalsObj = tetra_vertices
   \<and> gpu (snd (projl (draw () reloaded))) NormalsObj = [[1, 1, 0], [1, 1, 0], [1, 1, 0]]
   \<and> self_data_changed (snd (projl (draw () reloaded)))"
    by (simp add: history_defs run_defs example_defs)
  from d b first f l second show ?thesis by simp
qed

text \<open>
  C8, amended: when materialization fails during a draw, the exception leaves \<open>draw\<close>
  before anything is bound or submitted; the program, the stored mesh, the uniform colour
  and the shading mode are as before and the dirty flag is still set, so the next draw
  runs the materialization again. Buffers and the representation flag written before the
  failing query keep their new values.
\<close>

theorem failed_materialization_keeps_dirty:
  assumes d: "self_data_changed s"
    and r: "draw T s = Inl (e, s')"
  shows "update_data (emit SetState s) = Inl (e, s')
       \<and> self_data_changed s'
       \<and> self_program s' = self_program s
       \<and> self_meshdata s' = self_meshdata s
       \<and> self_color s' = self_color s
       \<and> shading s' = shading s
       \<and> trace s' = trace s @ [SetState, UpdateData]
       \<and> draw T' s' = then_do (update_data (emit SetState s')) (\<lambda>s1. Inr (submit T' s1))"
proof -
  have u: "update_data (emit SetState s) = Inl (e, s')"
    using r draw_dirty[OF d, of T] by (auto simp: then_do_def split: sum.splits)
  then have b: "update_buffers (emit UpdateData (emit SetState s)) = Inl (e, s')"
    by (simp add: update_data_Inl)
  note F = update_buffers_frame[of "emit UpdateData (emit SetState s)" s' e]
  have fr: "self_data_changed s' = self_data_changed s" "self_program s' = self_program s"
    "self_meshdata s' = self_meshdata s" "self_color s' = self_color s"
    "self_shading s' = self_shading s" "trace s' = trace s @ [SetState, UpdateData]"
    using F b by (simp_all add: emit_frame)
  have d': "self_data_changed s'" using fr(1) d by simp
  show ?thesis
    using u d' fr draw_dirty[OF d', of T'] by (simp add: shading_def)
qed

theorem failed_materialization_keeps_dirty_witness:
  "self_data_changed reloaded
   \<and> draw () reloaded = Inl (InvalidMeshError, snd (projl (draw () reloaded)))
   \<and> self_data_changed (snd (projl (draw () reloaded)))
   \<and> self_program (snd (projl (draw () reloaded))) = self_program reloaded
   \<and> trace (snd (projl (draw () reloaded))) = trace reloaded @ [SetState, UpdateData]
   \<and> isl (draw () (snd (projl (draw () reloaded))))"
proof -
  have d: "self_data_changed reloaded"
    by (simp add: history_defs run_defs example_defs)
  have i: "isl (draw () reloaded)" "fst (projl (draw () reloaded)) = InvalidMeshError"
    by (simp_all add: history_defs run_defs example_defs)
  then have r: "draw () reloaded = Inl (InvalidMeshError, snd (projl (draw () reloaded)))"
    by (cases "draw () reloaded") auto
  have again: "isl (draw () (snd (projl (draw () reloaded))))"
    by (simp add: history_defs run_defs example_defs)
  from failed_materialization_keeps_dirty[OF d r] d r again show ?thesis
    by simp
qed

subsection \<open>Colour precedence\<close>

text \<open>
  C1 fails in the indexed path: for a mesh with colours per vertex and per face and
  shading \<open>'smooth'\<close>, the two independent \<open>if\<close> statements write the vertex colours and then
  overwrite them with the face colours. The expanded path, with \<open>elif\<close>, gives precedence
  to the vertex colours.
\<close>

theorem indexed_path_face_colors_win:
  "has_vertex_color (tetra (Some tetra_vertex_colors) (Some tetra_face_colors))
   \<and> has_face_color (tetra (Some tetra_vertex_colors) (Some tetra_face_colors))
   \<and> update_data (tetra_visual (Some tetra_vertex_colors) (Some tetra_face_colors) (Some ''smooth''))
       = Inr (projr (update_data
           (tetra_visual (Some tetra_vertex_colors) (Some tetra_face_colors) (Some ''smooth''))))
   \<and> self_indexed (projr (update_data
         (tetra_visual (Some tetra_vertex_colors) (Some tetra_face_colors) (Some ''smooth''))))
       = Some True
   \<and> gpu (projr (update_data
         (tetra_visual (Some tetra_vertex_colors) (Some tetra_face_colors) (Some ''smooth''))))
        ColorsObj = tetra_face_colors
   \<and> tetra_face_colors \<noteq> tetra_vertex_colors"
proof -
  let ?s = "tetra_visual (Some tetra_vertex_colors) (Some tetra_face_colors) (Some ''smooth'')"
  have r: "update_data ?s = Inr (projr (update_data ?s))"
    by (rule returns_projr) (simp add: run_defs example_defs)
  have "self_indexed (projr (update_data ?s)) = Some True"
    "gpu (projr (update_data ?s)) ColorsObj = tetra_face_colors"
    by (simp_all add: run_defs example_defs)
  moreover have "tetra_face_colors \<noteq> tetra_vertex_colors"
    by (simp add: tetra_face_colors_def tetra_vertex_colors_def)
  moreover have "has_vertex_color (tetra (Some tetra_vertex_colors) (Some tetra_face_colors))"
    "has_face_color (tetra (Some tetra_vertex_colors) (Some tetra_face_colors))"
    by (simp_all add: tetra_def mesh_of_queries)
  ultimately show ?thesis using r by simp
qed

subsection \<open>The dirty flag\<close>

lemma update_data_keeps_flag:
  "update_data s = Inr s' \<Longrightarrow> self_data_changed s' = self_data_changed s"
  using update_buffers_frame[of "emit UpdateData s"]
  by (auto simp: update_data_Inr bind_program_frame emit_frame)

lemma draw_keeps_flag:
  "draw T s = Inr s' \<Longrightarrow> self_data_changed s' = self_data_changed s"
  by (auto simp: draw_def Let_def then_do_def submit_frame emit_frame
      dest: update_data_keeps_flag split: if_splits sum.splits)

text \<open>
  C2 fails: \<open>draw\<close> tests \<open>_data_changed\<close> but nothing ever resets it, so after one
  \<open>set_data\<close> each of two draws runs \<open>_update_data\<close>; the flag is still set after each of
  them. The buffers hold the same contents after both draws.
\<close>

theorem two_draws_materialize_twice:
  "set_data (MeshData radial_normals) (Some tetra_vertices) (Some tetra_faces)
      None None None None (tetra_visual None None (Some ''smooth'')) = Inr set_once
   \<and> self_data_changed set_once
   \<and> drawn_twice = then_do (draw () set_once) (draw ())
   \<and> \<not> isl (draw () set_once)
   \<and> \<not> isl drawn_twice
   \<and> trace (projr drawn_twice) =
       [Update, Update, SetState, UpdateData, DrawIndexed tetra_faces,
        SetState, UpdateData, DrawIndexed tetra_faces]
   \<and> count_list (trace (projr drawn_twice)) UpdateData = 2
   \<and> self_data_changed (projr (draw () set_once))
   \<and> self_data_changed (projr drawn_twice)
   \<and> gpu (projr drawn_twice) (VerticesObj 0) = gpu (projr (draw () set_once)) (VerticesObj 0)
   \<and> gpu (projr drawn_twice) NormalsObj = gpu (projr (draw () set_once)) NormalsObj
   \<and> self_faces (projr drawn_twice) = self_faces (projr (draw () set_once))"
proof -
  have s: "set_data (MeshData radial_normals) (Some tetra_vertices) (Some tetra_faces)
      None None None None (tetra_visual None None (Some ''smooth'')) = Inr set_once"
    unfolding set_once_def
    by (rule returns_projr) (simp add: set_data_def MeshData_def)
  have rest: "self_data_changed set_once
   \<and> \<not> isl (draw () set_once)
   \<and> \<not> isl drawn_twice
   \<and> trace (projr drawn_twice) =
       [Update, Update, SetState, UpdateData, DrawIndexed tetra_faces,
        SetState, UpdateData, DrawIndexed tetra_faces]
   \<and> count_list (trace (projr drawn_twice)) UpdateData = 2
   \<and> self_data_changed (projr (draw () set_once))
   \<and> self_data_changed (projr drawn_twice)
   \<and> gpu (projr drawn_twice) (VerticesObj 0) = gpu (projr (draw () set_once)) (VerticesObj 0)
   \<and> gpu (projr drawn_twice) NormalsObj = gpu (projr (draw () set_once)) NormalsObj
   \<and> self_faces (projr drawn_twice) = self_faces (projr (draw () set_once))"
    by (simp add: history_defs run_defs example_defs)
  from s rest show ?thesis by (simp add: drawn_twice_def)
qed

end
